theory Spec2Isabelle
  imports Complex_Main "HOL-Library.Word"
begin

unbundle bit_operations_syntax

section \<open>Road recognition: a shallow embedding of \<^verbatim>\<open>road_recognition.py\<close>\<close>

text \<open>
  The class \<^verbatim>\<open>RoadRecognition\<close> is a collection of stateless class methods. Each method
  becomes a HOL function of the same name. Conventions of the embedding:
  \<^item> The entries of a Hough row are numpy \<^verbatim>\<open>int32\<close> scalars: they are \<open>int\<close>, and every
    operation the source performs on them wraps around at 32 bits (\<open>int32\<close>).
  \<^item> Python floats and numpy \<^verbatim>\<open>float64\<close> scalars are values of the type \<open>f64\<close>: a real
    number, an infinity or a NaN. Every arithmetic operation rounds its exact result to
    the nearest double, ties to even (\<open>rnd\<close>). The sign of a zero is not modelled: it
    decides only the sign of an infinity that a division by zero returns, which the
    program never observes.
  \<^item> Every \<^verbatim>\<open>raise\<close> and every run-time failure of an operation the source performs is
    a value \<open>Inl e\<close> of the result type \<open>py_error + 'a\<close>.
  \<^item> Functions of the external vision library are not part of the repository; they are
    parameters of the model, collected in the record \<open>cv2\<close>.
\<close>

subsection \<open>Errors\<close>

datatype py_error =
    TypeError
  | ValueError
  | OverflowError
  | IndexError
  | CameraNotFoundException

subsection \<open>Double-precision numbers\<close>

datatype f64 = Fin real | PInf | NInf | NaN

text \<open>Rounding a real number to the nearest integer, a tie to the even one.\<close>

definition round_even :: "real \<Rightarrow> int" where
  "round_even x =
     (if x - of_int \<lfloor>x\<rfloor> < 1 / 2 then \<lfloor>x\<rfloor>
      else if x - of_int \<lfloor>x\<rfloor> > 1 / 2 then \<lfloor>x\<rfloor> + 1
      else if even \<lfloor>x\<rfloor> then \<lfloor>x\<rfloor> else \<lfloor>x\<rfloor> + 1)"

text \<open>
  The exponent \<open>e\<close> with \<open>2\<^sup>e \<le> |x| < 2\<^sup>e\<^sup>+\<^sup>1\<close>, not below that of the smallest normal
  number; the doubles around \<open>x\<close> are the multiples of \<open>2\<^sup>e\<^sup>-\<^sup>5\<^sup>2\<close>.
\<close>

definition binade :: "real \<Rightarrow> int" where
  "binade x = max \<lfloor>log 2 \<bar>x\<bar>\<rfloor> (- 1022)"

text \<open>
  The double nearest to a real number: a multiple of the spacing of its binade, or an
  infinity when the rounded magnitude reaches \<open>2\<^sup>1\<^sup>0\<^sup>2\<^sup>4\<close>.
\<close>

definition rnd :: "real \<Rightarrow> f64" where
  "rnd x =
     (if x = 0 then Fin 0
      else let u = 2 powi (binade x - 52);
               r = u * of_int (round_even (x / u))
           in if \<bar>r\<bar> \<ge> 2 powi 1024 then (if x > 0 then PInf else NInf) else Fin r)"

fun fneg :: "f64 \<Rightarrow> f64" where
  "fneg (Fin a) = Fin (- a)"
| "fneg PInf = NInf"
| "fneg NInf = PInf"
| "fneg NaN = NaN"

fun fadd :: "f64 \<Rightarrow> f64 \<Rightarrow> f64" where
  "fadd (Fin a) (Fin b) = rnd (a + b)"
| "fadd NaN y = NaN"
| "fadd x NaN = NaN"
| "fadd PInf NInf = NaN"
| "fadd NInf PInf = NaN"
| "fadd PInf y = PInf"
| "fadd NInf y = NInf"
| "fadd x PInf = PInf"
| "fadd x NInf = NInf"

definition fsub :: "f64 \<Rightarrow> f64 \<Rightarrow> f64" where
  "fsub x y = fadd x (fneg y)"

fun fmul :: "f64 \<Rightarrow> f64 \<Rightarrow> f64" where
  "fmul (Fin a) (Fin b) = rnd (a * b)"
| "fmul NaN y = NaN"
| "fmul x NaN = NaN"
| "fmul (Fin a) PInf = (if a = 0 then NaN else if 0 < a then PInf else NInf)"
| "fmul (Fin a) NInf = (if a = 0 then NaN else if 0 < a then NInf else PInf)"
| "fmul PInf (Fin b) = (if b = 0 then NaN else if 0 < b then PInf else NInf)"
| "fmul NInf (Fin b) = (if b = 0 then NaN else if 0 < b then NInf else PInf)"
| "fmul PInf PInf = PInf"
| "fmul NInf NInf = PInf"
| "fmul PInf NInf = NInf"
| "fmul NInf PInf = NInf"

text \<open>
  numpy does not raise on a zero divisor: the quotient is a NaN for \<open>0 / 0\<close> and an
  infinity otherwise.
\<close>

fun fdiv :: "f64 \<Rightarrow> f64 \<Rightarrow> f64" where
  "fdiv (Fin a) (Fin b) =
     (if b = 0 then (if a = 0 then NaN else if 0 < a then PInf else NInf)
      else rnd (a / b))"
| "fdiv NaN y = NaN"
| "fdiv x NaN = NaN"
| "fdiv (Fin a) PInf = Fin 0"
| "fdiv (Fin a) NInf = Fin 0"
| "fdiv PInf (Fin b) = (if b < 0 then NInf else PInf)"
| "fdiv NInf (Fin b) = (if b < 0 then PInf else NInf)"
| "fdiv x y = NaN"

text \<open>\<^verbatim>\<open>np.sqrt\<close>: a NaN for a negative argument.\<close>

fun fsqrt :: "f64 \<Rightarrow> f64" where
  "fsqrt (Fin a) = (if a < 0 then NaN else rnd (sqrt a))"
| "fsqrt PInf = PInf"
| "fsqrt NInf = NaN"
| "fsqrt NaN = NaN"

fun fless :: "f64 \<Rightarrow> f64 \<Rightarrow> bool" where
  "fless (Fin a) (Fin b) = (a < b)"
| "fless NaN y = False"
| "fless x NaN = False"
| "fless x NInf = False"
| "fless PInf y = False"
| "fless NInf y = True"
| "fless x PInf = True"

text \<open>A Python or numpy integer used in float arithmetic is converted to a double.\<close>

definition float_of_int :: "int \<Rightarrow> f64" where
  "float_of_int n = rnd (real_of_int n)"

text \<open>
  Python's \<^verbatim>\<open>int(x)\<close> truncates a finite float towards zero and raises
  \<^verbatim>\<open>OverflowError\<close> on an infinity and \<^verbatim>\<open>ValueError\<close> on a NaN.
\<close>

definition py_trunc :: "real \<Rightarrow> int" where
  "py_trunc r = (if r < 0 then \<lceil>r\<rceil> else \<lfloor>r\<rfloor>)"

fun py_int :: "f64 \<Rightarrow> py_error + int" where
  "py_int (Fin r) = Inr (py_trunc r)"
| "py_int PInf = Inl OverflowError"
| "py_int NInf = Inl OverflowError"
| "py_int NaN = Inl ValueError"

subsection \<open>32-bit integers\<close>

text \<open>The value a numpy \<^verbatim>\<open>int32\<close> operation stores for the exact result \<open>n\<close>.\<close>

definition int32 :: "int \<Rightarrow> int" where
  "int32 n = (n + 2 ^ 31) mod 2 ^ 32 - 2 ^ 31"

subsection \<open>Raw segments and lane models\<close>

type_synonym segment = "int \<times> int \<times> int \<times> int"
type_synonym lane = "f64 \<times> f64"
type_synonym point = "int \<times> int"
type_synonym lane_segment = "point \<times> point"

text \<open>
  The three quantities the loop body computes for a segment with \<open>x1 \<noteq> x2\<close>. The
  differences, their squares and the sum of the squares are \<^verbatim>\<open>int32\<close> results; the
  quotient, the product and the square root are doubles.
\<close>

fun slope :: "segment \<Rightarrow> f64" where
  "slope (x1, y1, x2, y2) =
     fdiv (float_of_int (int32 (y2 - y1))) (float_of_int (int32 (x2 - x1)))"

fun intercept :: "segment \<Rightarrow> f64" where
  "intercept (x1, y1, x2, y2) =
     fsub (float_of_int y1) (fmul (slope (x1, y1, x2, y2)) (float_of_int x1))"

fun seg_length :: "segment \<Rightarrow> f64" where
  "seg_length (x1, y1, x2, y2) =
     fsqrt (float_of_int
       (int32 (int32 ((int32 (y2 - y1))\<^sup>2) + int32 ((int32 (x2 - x1))\<^sup>2))))"

subsection \<open>\<^verbatim>\<open>__average_slope_intercept\<close>\<close>

text \<open>The four lists the method appends to.\<close>

record averager =
  left_lines :: "lane list"
  left_weights :: "f64 list"
  right_lines :: "lane list"
  right_weights :: "f64 list"

definition empty_averager :: averager where
  "empty_averager =
     \<lparr>left_lines = [], left_weights = [], right_lines = [], right_weights = []\<rparr>"

text \<open>The body of the inner loop, for one \<^verbatim>\<open>x1, y1, x2, y2\<close>.\<close>

fun add_segment :: "segment \<Rightarrow> averager \<Rightarrow> averager" where
  "add_segment (x1, y1, x2, y2) a =
     (if x1 = x2 then a
      else if fless (slope (x1, y1, x2, y2)) (float_of_int 0)
      then a\<lparr>left_lines := left_lines a @ [(slope (x1, y1, x2, y2), intercept (x1, y1, x2, y2))],
             left_weights := left_weights a @ [seg_length (x1, y1, x2, y2)]\<rparr>
      else a\<lparr>right_lines := right_lines a @ [(slope (x1, y1, x2, y2), intercept (x1, y1, x2, y2))],
             right_weights := right_weights a @ [seg_length (x1, y1, x2, y2)]\<rparr>)"

text \<open>\<^verbatim>\<open>for x1, y1, x2, y2 in line\<close>\<close>

fun scan_line :: "segment list \<Rightarrow> averager \<Rightarrow> averager" where
  "scan_line [] a = a"
| "scan_line (s # ss) a = scan_line ss (add_segment s a)"

text \<open>\<^verbatim>\<open>for line in lines\<close>\<close>

fun scan_lines :: "segment list list \<Rightarrow> averager \<Rightarrow> averager" where
  "scan_lines [] a = a"
| "scan_lines (l # ls) a = scan_lines ls (scan_line l a)"

text \<open>
  \<^verbatim>\<open>np.dot(weights, lines)\<close> of a vector of \<open>n\<close> weights and an \<open>n \<times> 2\<close> matrix, and
  \<^verbatim>\<open>np.sum(weights)\<close>. The two lists are appended to together, so they have one length.
  The order in which numpy accumulates a sum is the library's; the model accumulates from
  the left, starting from the first term. Sums of one term and sums with a NaN term do
  not depend on that order.
\<close>

fun fsum :: "f64 list \<Rightarrow> f64" where
  "fsum [] = Fin 0"
| "fsum (x # xs) = foldl fadd x xs"

definition np_dot :: "f64 list \<Rightarrow> lane list \<Rightarrow> lane" where
  "np_dot ws ls =
     (fsum (map (\<lambda>(w, l). fmul w (fst l)) (zip ws ls)),
      fsum (map (\<lambda>(w, l). fmul w (snd l)) (zip ws ls)))"

definition np_sum :: "f64 list \<Rightarrow> f64" where
  "np_sum ws = fsum ws"

definition weighted_lane :: "f64 list \<Rightarrow> lane list \<Rightarrow> lane option" where
  "weighted_lane ws ls =
     (if length ws > 0
      then Some (fdiv (fst (np_dot ws ls)) (np_sum ws), fdiv (snd (np_dot ws ls)) (np_sum ws))
      else None)"

text \<open>
  The line detector returns \<^verbatim>\<open>None\<close> when it finds nothing, and iterating over
  \<^verbatim>\<open>None\<close> raises \<^verbatim>\<open>TypeError\<close>.
\<close>

definition average_slope_intercept ::
  "segment list list option \<Rightarrow> py_error + (lane option \<times> lane option)" where
  "average_slope_intercept lines =
     (case lines of
        None \<Rightarrow> Inl TypeError
      | Some ls \<Rightarrow>
          (let a = scan_lines ls empty_averager;
               left_lane = weighted_lane (left_weights a) (left_lines a);
               right_lane = weighted_lane (right_weights a) (right_lines a)
           in Inr (left_lane, right_lane)))"

subsection \<open>\<^verbatim>\<open>__pixel_points\<close>\<close>

text \<open>
  The method is called with the frame height, a Python \<^verbatim>\<open>int\<close>, as \<open>y1\<close> and with a
  float as \<open>y2\<close>. The two \<open>x\<close> are converted first, then the two \<open>y\<close>.
\<close>

definition pixel_points :: "int \<Rightarrow> f64 \<Rightarrow> lane option \<Rightarrow> py_error + lane_segment option" where
  "pixel_points y1 y2 line =
     (case line of
        None \<Rightarrow> Inr None
      | Some (m, b) \<Rightarrow>
          (case py_int (fdiv (fsub (float_of_int y1) b) m) of
             Inl e \<Rightarrow> Inl e
           | Inr x1 \<Rightarrow>
               (case py_int (fdiv (fsub y2 b) m) of
                  Inl e \<Rightarrow> Inl e
                | Inr x2 \<Rightarrow>
                    (case py_int y2 of
                       Inl e \<Rightarrow> Inl e
                     | Inr y2' \<Rightarrow> Inr (Some ((x1, y1), (x2, y2')))))))"

subsection \<open>Frames and the vision library\<close>

text \<open>
  A frame is an array of 8-bit samples with a shape \<open>[rows, cols]\<close> or
  \<open>[rows, cols, channels]\<close>; a sample is addressed by row, column and channel (channel
  \<open>0\<close> for a two-dimensional frame).
\<close>

record matlike =
  shape :: "nat list"
  pixel :: "nat \<Rightarrow> nat \<Rightarrow> nat \<Rightarrow> 8 word"

datatype color_code = COLOR_BGR2GRAY

text \<open>
  The operations of the vision library the class calls. They are external to the
  repository, so the model takes them as parameters. \<open>cv_covered\<close> is the rasteriser
  of \<^verbatim>\<open>fillPoly\<close>: \<open>cv_covered cv vertices r c\<close> says whether the sample in row \<open>r\<close> and
  column \<open>c\<close> belongs to the filled polygon.
\<close>

record cv2 =
  cv_cvtColor :: "matlike \<Rightarrow> color_code \<Rightarrow> matlike"
  cv_GaussianBlur :: "matlike \<Rightarrow> nat \<times> nat \<Rightarrow> real \<Rightarrow> matlike"
  cv_Canny :: "matlike \<Rightarrow> real \<Rightarrow> real \<Rightarrow> matlike"
  cv_covered :: "point list \<Rightarrow> nat \<Rightarrow> nat \<Rightarrow> bool"
  cv_HoughLinesP :: "matlike \<Rightarrow> real \<Rightarrow> real \<Rightarrow> int \<Rightarrow> real \<Rightarrow> real \<Rightarrow> segment list list option"
  cv_line :: "matlike \<Rightarrow> point \<Rightarrow> point \<Rightarrow> nat list \<Rightarrow> int \<Rightarrow> matlike"
  cv_addWeighted :: "matlike \<Rightarrow> real \<Rightarrow> matlike \<Rightarrow> real \<Rightarrow> real \<Rightarrow> matlike"

text \<open>\<^verbatim>\<open>np.zeros_like\<close>: the same shape, every sample zero.\<close>

definition zeros_like :: "matlike \<Rightarrow> matlike" where
  "zeros_like img = img\<lparr>pixel := (\<lambda>r c k. 0)\<rparr>"

text \<open>
  \<^verbatim>\<open>cv2.fillPoly(mask, vertices, color)\<close> writes the colour into the covered samples of
  the mask and leaves the others; a colour with fewer components than channels is padded
  with zero.
\<close>

definition channel_value :: "8 word list \<Rightarrow> nat \<Rightarrow> 8 word" where
  "channel_value color k = (if k < length color then color ! k else 0)"

definition fillPoly :: "cv2 \<Rightarrow> matlike \<Rightarrow> point list \<Rightarrow> 8 word list \<Rightarrow> matlike" where
  "fillPoly cv mask_image vertices color =
     mask_image\<lparr>pixel := (\<lambda>r c k. if cv_covered cv vertices r c then channel_value color k
                               else pixel mask_image r c k)\<rparr>"

text \<open>
  \<^verbatim>\<open>cv2.bitwise_and\<close> of two frames of one shape. The library returns a single-channel
  result as a two-dimensional array, so a frame of shape \<open>[rows, cols, 1]\<close> comes back with
  the shape \<open>[rows, cols]\<close>.
\<close>

definition bitwise_and :: "matlike \<Rightarrow> matlike \<Rightarrow> matlike" where
  "bitwise_and a b =
     \<lparr>shape = (if length (shape a) = 3 \<and> shape a ! 2 = 1 then take 2 (shape a) else shape a),
      pixel = (\<lambda>r c k. pixel a r c k AND pixel b r c k)\<rparr>"

text \<open>
  Storing a float in an \<^verbatim>\<open>int32\<close> array truncates it towards zero; a value that has no
  \<^verbatim>\<open>int32\<close> is stored as the smallest one.
\<close>

definition np_int32 :: "f64 \<Rightarrow> int" where
  "np_int32 x =
     (case x of
        Fin r \<Rightarrow> (if - (2 ^ 31) \<le> py_trunc r \<and> py_trunc r < 2 ^ 31 then py_trunc r else - (2 ^ 31))
      | _ \<Rightarrow> - (2 ^ 31))"

subsection \<open>\<^verbatim>\<open>__region_selection\<close>\<close>

text \<open>
  The vertex array the method builds from \<^verbatim>\<open>rows, cols = image.shape[:2]\<close>. A float
  literal is the double nearest to the decimal it writes.
\<close>

definition vertices :: "nat \<Rightarrow> nat \<Rightarrow> point list" where
  "vertices rows cols =
     (let bottom_left = (fmul (float_of_int (int cols)) (rnd 0.1), fmul (float_of_int (int rows)) (rnd 0.95));
          top_left = (fmul (float_of_int (int cols)) (rnd 0.4), fmul (float_of_int (int rows)) (rnd 0.6));
          bottom_right = (fmul (float_of_int (int cols)) (rnd 0.9), fmul (float_of_int (int rows)) (rnd 0.95));
          top_right = (fmul (float_of_int (int cols)) (rnd 0.6), fmul (float_of_int (int rows)) (rnd 0.6))
      in map (\<lambda>(x, y). (np_int32 x, np_int32 y))
           [bottom_left, top_left, top_right, bottom_right])"

definition ignore_mask_color :: "matlike \<Rightarrow> 8 word list" where
  "ignore_mask_color img =
     (if length (shape img) > 2 then replicate (shape img ! 2) 255 else [255])"

text \<open>Unpacking \<^verbatim>\<open>image.shape[:2]\<close> into two names needs two dimensions.\<close>

definition region_selection :: "cv2 \<Rightarrow> matlike \<Rightarrow> py_error + matlike" where
  "region_selection cv img =
     (let mask_image = zeros_like img;
          color = ignore_mask_color img
      in case shape img of
           rows # cols # _ \<Rightarrow>
             Inr (bitwise_and img (fillPoly cv mask_image (vertices rows cols) color))
         | _ \<Rightarrow> Inl ValueError)"

subsection \<open>\<^verbatim>\<open>__hough_transform\<close>\<close>

definition hough_transform :: "cv2 \<Rightarrow> matlike \<Rightarrow> segment list list option" where
  "hough_transform cv img =
     (let rho = 1; theta = pi / 180; threshold = 20; min_line_length = 20; max_line_gap = 500
      in cv_HoughLinesP cv img rho theta threshold min_line_length max_line_gap)"

subsection \<open>\<^verbatim>\<open>__lane_lines\<close>\<close>

definition lane_lines ::
  "matlike \<Rightarrow> segment list list option \<Rightarrow> py_error + (lane_segment option \<times> lane_segment option)" where
  "lane_lines img lines =
     (case average_slope_intercept lines of
        Inl e \<Rightarrow> Inl e
      | Inr (left_lane, right_lane) \<Rightarrow>
          (case shape img of
             [] \<Rightarrow> Inl IndexError
           | h # _ \<Rightarrow>
               (let y1 = int h; y2 = fmul (float_of_int y1) (rnd 0.6)
                in case pixel_points y1 y2 left_lane of
                     Inl e \<Rightarrow> Inl e
                   | Inr left_line \<Rightarrow>
                       (case pixel_points y1 y2 right_lane of
                          Inl e \<Rightarrow> Inl e
                        | Inr right_line \<Rightarrow> Inr (left_line, right_line)))))"

subsection \<open>\<^verbatim>\<open>__draw_lane_lines\<close>\<close>

text \<open>\<^verbatim>\<open>for line in lines: if line is not None: cv2.line(line_image, *line, color, thickness)\<close>\<close>

fun draw_each :: "cv2 \<Rightarrow> matlike \<Rightarrow> lane_segment option list \<Rightarrow> nat list \<Rightarrow> int \<Rightarrow> matlike" where
  "draw_each cv line_image [] color thickness = line_image"
| "draw_each cv line_image (None # ls) color thickness =
     draw_each cv line_image ls color thickness"
| "draw_each cv line_image (Some (p, q) # ls) color thickness =
     draw_each cv (cv_line cv line_image p q color thickness) ls color thickness"

text \<open>
  The keyword arguments \<^verbatim>\<open>color=None, thickness=12\<close>: an omitted argument is \<open>None\<close>
  in the model and takes the default of the signature.
\<close>

definition draw_lane_lines ::
  "cv2 \<Rightarrow> matlike \<Rightarrow> lane_segment option list \<Rightarrow> nat list option \<Rightarrow> int option \<Rightarrow> matlike" where
  "draw_lane_lines cv img lines color thickness =
     (let thickness = (case thickness of None \<Rightarrow> 12 | Some t \<Rightarrow> t);
          color = (case color of None \<Rightarrow> [255, 0, 0] | Some c \<Rightarrow> c);
          line_image = draw_each cv (zeros_like img) lines color thickness
      in cv_addWeighted cv img 1.0 line_image 1.0 0.0)"

subsection \<open>\<^verbatim>\<open>frame_processor\<close>, \<^verbatim>\<open>recognite\<close> and \<^verbatim>\<open>prepare_capture\<close>\<close>

definition frame_processor :: "cv2 \<Rightarrow> matlike \<Rightarrow> py_error + matlike" where
  "frame_processor cv img =
     (let grayscale = cv_cvtColor cv img COLOR_BGR2GRAY;
          kernel_size = 5;
          blur = cv_GaussianBlur cv grayscale (kernel_size, kernel_size) 0;
          low_t = 50;
          high_t = 150;
          edges = cv_Canny cv blur low_t high_t
      in case region_selection cv edges of
           Inl e \<Rightarrow> Inl e
         | Inr region \<Rightarrow>
             (case lane_lines img (hough_transform cv region) of
                Inl e \<Rightarrow> Inl e
              | Inr (left_line, right_line) \<Rightarrow>
                  Inr (draw_lane_lines cv img [left_line, right_line] None None)))"

definition recognite :: "matlike \<Rightarrow> matlike" where
  "recognite frame = frame"

text \<open>
  The class \<^verbatim>\<open>Capture\<close> is imported from a module outside the file; its constructor and
  its \<^verbatim>\<open>isOpened\<close> are parameters. The method's calls on the device are recorded in
  the order it makes them.
\<close>

datatype device_call = CallCapture int | CallIsOpened | CallRead

definition prepare_capture ::
  "(int \<Rightarrow> 'h) \<Rightarrow> ('h \<Rightarrow> bool) \<Rightarrow> int \<Rightarrow> device_call list \<times> (py_error + 'h)" where
  "prepare_capture Capture isOpened camera_index =
     (let camera_capture = Capture camera_index;
          calls = [CallCapture camera_index, CallIsOpened]
      in if \<not> isOpened camera_capture then (calls, Inl CameraNotFoundException)
         else (calls, Inr camera_capture))"

subsection \<open>Notions used to state the properties\<close>

fun vertical :: "segment \<Rightarrow> bool" where
  "vertical (x1, y1, x2, y2) = (x1 = x2)"

text \<open>The candidates of a side, in input order.\<close>

definition left_candidates :: "segment list list \<Rightarrow> segment list" where
  "left_candidates lines =
     filter (\<lambda>s. \<not> vertical s \<and> fless (slope s) (Fin 0)) (concat lines)"

definition right_candidates :: "segment list list \<Rightarrow> segment list" where
  "right_candidates lines =
     filter (\<lambda>s. \<not> vertical s \<and> \<not> fless (slope s) (Fin 0)) (concat lines)"

text \<open>The lane model the method computes from the candidates of a side.\<close>

definition candidates_lane :: "segment list \<Rightarrow> lane option" where
  "candidates_lane cands =
     weighted_lane (map seg_length cands) (map (\<lambda>s. (slope s, intercept s)) cands)"

text \<open>
  The frames of the pipeline have their channels in the order blue, green, red: they are
  converted with \<^verbatim>\<open>COLOR_BGR2GRAY\<close> and shown with \<^verbatim>\<open>imshow\<close>. A saturated colour as a
  triple in that order:
\<close>

datatype colour = Blue | Green | Red

fun bgr :: "colour \<Rightarrow> nat list" where
  "bgr Blue = [255, 0, 0]"
| "bgr Green = [0, 255, 0]"
| "bgr Red = [0, 0, 255]"

text \<open>
  A vision library to run the model on concrete frames: its filters return their input,
  its rasteriser covers nothing, its line detector finds nothing, its drawing and blending
  return the first frame.
\<close>

definition demo_cv2 :: cv2 where
  "demo_cv2 =
     \<lparr>cv_cvtColor = (\<lambda>img code. img),
      cv_GaussianBlur = (\<lambda>img ksize sigma. img),
      cv_Canny = (\<lambda>img lo hi. img),
      cv_covered = (\<lambda>vs r c. False),
      cv_HoughLinesP = (\<lambda>img rho theta threshold min_len max_gap. None),
      cv_line = (\<lambda>img p q color thickness. img),
      cv_addWeighted = (\<lambda>a alpha b beta gamma. a)\<rparr>"

text \<open>A frame with every sample 255.\<close>

definition white :: "nat list \<Rightarrow> matlike" where
  "white shp = \<lparr>shape = shp, pixel = (\<lambda>r c k. 255)\<rparr>"

section \<open>Properties\<close>

subsection \<open>Rounding to a double\<close>

text \<open>
  \<open>rnd\<close> is evaluated by naming the binade \<open>k\<close> of the argument and the integer \<open>n\<close>
  that its quotient by the spacing rounds to.
\<close>

lemma binade_eq:
  assumes "2 powi k \<le> \<bar>x\<bar>" "\<bar>x\<bar> < 2 powi (k + 1)" "- 1022 \<le> k"
  shows "binade x = k"
proof -
  have pos: "0 < \<bar>x\<bar>" using assms(1) by (smt (verit) zero_less_power_int)
  have k1: "(2::real) powr (real_of_int k + 1) = 2 powi (k + 1)"
    using powr_real_of_int' [of 2 "k + 1"] by simp
  have k0: "(2::real) powr real_of_int k = 2 powi k"
    using powr_real_of_int' [of 2 k] by simp
  have "\<lfloor>log 2 \<bar>x\<bar>\<rfloor> = k"
    using assms(1,2) pos by (simp add: floor_log_eq_powr_iff k0 k1)
  with assms(3) show ?thesis by (simp add: binade_def)
qed

lemma round_even_of_int: "round_even (of_int n) = n"
  by (simp add: round_even_def)

lemma round_even_le: "x \<le> of_int n \<Longrightarrow> round_even x \<le> n"
  unfolding round_even_def by (auto simp: floor_le_iff; linarith)

lemma round_even_ge: "of_int n \<le> x \<Longrightarrow> n \<le> round_even x"
  unfolding round_even_def by (auto simp: le_floor_iff; linarith)

lemma round_even_eq:
  assumes "of_int n - 1 / 2 < x" "x < of_int n + 1 / 2"
  shows "round_even x = n"
proof -
  consider "x < of_int n" | "of_int n \<le> x" by linarith
  then show ?thesis
  proof cases
    case 1
    with assms have f: "\<lfloor>x\<rfloor> = n - 1" by (simp add: floor_eq_iff)
    with assms 1 show ?thesis by (simp add: round_even_def)
  next
    case 2
    with assms have f: "\<lfloor>x\<rfloor> = n" by (simp add: floor_eq_iff)
    with assms 2 show ?thesis by (simp add: round_even_def)
  qed
qed

lemma rnd_eval:
  assumes "2 powi k \<le> \<bar>x\<bar>" "\<bar>x\<bar> < 2 powi (k + 1)" "- 1022 \<le> k" "k \<le> 1022"
    and "round_even (x / 2 powi (k - 52)) = n"
  shows "rnd x = Fin (2 powi (k - 52) * of_int n)"
proof -
  let ?u = "(2::real) powi (k - 52)"
  have u: "0 < ?u" by simp
  have b: "binade x = k" using assms(1-3) by (rule binade_eq)
  have x0: "x \<noteq> 0" using assms(1) by (smt (verit) zero_less_power_int)
  have split: "(2::real) powi (k + 1) = ?u * 2 ^ 53"
  proof -
    have "k + 1 = (k - 52) + 53" by simp
    then have "(2::real) powi (k + 1) = 2 powi ((k - 52) + 53)" by (rule arg_cong)
    also have "\<dots> = ?u * 2 powi 53" by (subst power_int_add) simp_all
    finally show ?thesis by simp
  qed
  define y where "y = x / ?u"
  have lt: "\<bar>x\<bar> < 2 ^ 53 * ?u"
    using assms(2) by (simp only: split mult.commute)
  have "\<bar>y\<bar> = \<bar>x\<bar> / ?u"
    unfolding y_def using u by (simp add: abs_divide del: power_int_diff)
  also have "\<dots> < 2 ^ 53"
    using lt u by (simp only: pos_divide_less_eq)
  finally have "\<bar>y\<bar> < 2 ^ 53" .
  then have "y \<le> 2 ^ 53" "- (2 ^ 53) \<le> y" by linarith+
  then have yb: "y \<le> of_int (2 ^ 53)" "of_int (- (2 ^ 53)) \<le> y" by simp_all
  have "round_even y \<le> 2 ^ 53" "- (2 ^ 53) \<le> round_even y"
    using round_even_le [OF yb(1)] round_even_ge [OF yb(2)] by blast+
  moreover have "round_even y = n" using assms(5) by (simp only: y_def)
  ultimately have "n \<le> 2 ^ 53" "- (2 ^ 53) \<le> n" by simp_all
  then have "real_of_int n \<le> real_of_int (2 ^ 53)" "real_of_int (- (2 ^ 53)) \<le> real_of_int n"
    by (simp_all only: of_int_le_iff)
  then have n: "\<bar>real_of_int n\<bar> \<le> 2 ^ 53" by simp
  have "\<bar>?u * of_int n\<bar> = ?u * \<bar>real_of_int n\<bar>"
    by (simp add: abs_mult)
  also have "\<dots> \<le> ?u * 2 ^ 53" using n u by simp
  also have "\<dots> = 2 powi (k + 1)" by (simp add: split)
  also have "\<dots> \<le> 2 powi 1023" using assms(4) by (intro power_int_increasing) simp_all
  also have "\<dots> < (2::real) powi 1024" by (intro power_int_strict_increasing) simp_all
  finally have "\<not> 2 powi 1024 \<le> \<bar>?u * of_int n\<bar>" by simp
  with b x0 assms(5) show ?thesis
    by (simp add: rnd_def Let_def)
qed

lemma rnd_eq:
  assumes "2 powi k \<le> \<bar>x\<bar>" "\<bar>x\<bar> < 2 powi (k + 1)" "- 1022 \<le> k" "k \<le> 1022"
    and "of_int n - 1 / 2 < x / 2 powi (k - 52)" "x / 2 powi (k - 52) < of_int n + 1 / 2"
    and "r = 2 powi (k - 52) * of_int n"
  shows "rnd x = Fin r"
  using rnd_eval [OF assms(1-4) round_even_eq [OF assms(5,6)]] assms(7) by simp

text \<open>An integer below \<open>2\<^sup>5\<^sup>3\<close> in magnitude is a double.\<close>

lemma int_binade:
  assumes "n \<noteq> 0"
  shows "\<exists>k\<ge>0. 2 powi k \<le> \<bar>real_of_int n\<bar> \<and> \<bar>real_of_int n\<bar> < 2 powi (k + 1)"
proof -
  let ?x = "\<bar>real_of_int n\<bar>"
  have x1: "1 \<le> ?x" using assms by (simp flip: of_int_abs)
  define k where "k = \<lfloor>log 2 ?x\<rfloor>"
  have k0: "0 \<le> k" unfolding k_def using x1 by simp
  have "2 powr real_of_int k \<le> ?x \<and> ?x < 2 powr (real_of_int k + 1)"
    using floor_log_eq_powr_iff [of ?x 2 k] x1 by (simp add: k_def)
  moreover have "(2::real) powr (real_of_int k + 1) = 2 powi (k + 1)"
    using powr_real_of_int' [of 2 "k + 1"] by simp
  moreover have "(2::real) powr real_of_int k = 2 powi k"
    using powr_real_of_int' [of 2 k] by simp
  ultimately show ?thesis using k0 by auto
qed

lemma rnd_of_int:
  assumes "\<bar>n\<bar> < 2 ^ 53"
  shows "rnd (real_of_int n) = Fin (real_of_int n)"
proof (cases "n = 0")
  case True
  then show ?thesis by (simp add: rnd_def)
next
  case False
  then obtain k where k: "0 \<le> k" "2 powi k \<le> \<bar>real_of_int n\<bar>"
    "\<bar>real_of_int n\<bar> < 2 powi (k + 1)"
    using int_binade by blast
  have "\<bar>real_of_int n\<bar> < 2 powi 53"
    using assms by (simp flip: of_int_abs)
  with k(2) have lt: "(2::real) powi k < 2 powi 53" by linarith
  have k53: "k < 53"
  proof (rule ccontr)
    assume "\<not> k < 53"
    then have "(2::real) powi 53 \<le> 2 powi k" by (intro power_int_increasing) simp_all
    with lt show False by simp
  qed
  define j where "j = nat (52 - k)"
  have u: "(2::real) powi (k - 52) = 1 / 2 ^ j"
    using k53 k(1) unfolding j_def by (simp add: power_int_def field_simps nat_diff_distrib)
  have "real_of_int n / 2 powi (k - 52) = real_of_int (n * 2 ^ j)"
    by (simp add: u)
  then have "round_even (real_of_int n / 2 powi (k - 52)) = n * 2 ^ j"
    by (simp only: round_even_of_int)
  from rnd_eval [OF k(2,3) _ _ this] k(1) k53
  have "rnd (real_of_int n) = Fin (2 powi (k - 52) * real_of_int (n * 2 ^ j))" by simp
  then show ?thesis by (simp add: u)
qed

lemma rnd_0: "rnd 0 = Fin 0"
  by (simp add: rnd_def)

lemma rnd_numeral: "(numeral n :: int) < 2 ^ 53 \<Longrightarrow> rnd (numeral n) = Fin (numeral n)"
  using rnd_of_int [of "numeral n"] by simp

lemma rnd_neg_numeral: "(numeral n :: int) < 2 ^ 53 \<Longrightarrow> rnd (- numeral n) = Fin (- numeral n)"
  using rnd_of_int [of "- numeral n"] by simp


lemma float_of_int_small: "\<bar>n\<bar> < 2 ^ 53 \<Longrightarrow> float_of_int n = Fin (real_of_int n)"
  by (simp add: float_of_int_def rnd_of_int)

lemma float_of_int_0: "float_of_int 0 = Fin 0"
  by (simp add: float_of_int_def rnd_0)

lemma int32_id: "- (2 ^ 31) \<le> n \<Longrightarrow> n < 2 ^ 31 \<Longrightarrow> int32 n = n"
  by (simp add: int32_def)

text \<open>
  The roundings that the concrete runs below perform.
\<close>

lemma rnd_3_5: "rnd (3 / 5) = Fin (5404319552844595 / 9007199254740992)"
  by (rule rnd_eq [where k = "- 1" and n = 5404319552844595]) (simp_all add: power_int_minus)

lemma rnd_1_10: "rnd (1 / 10) = Fin (3602879701896397 / 36028797018963968)"
  by (rule rnd_eq [where k = "- 4" and n = 7205759403792794]) (simp_all add: power_int_minus)

lemma y_far_100: "rnd (100 * (5404319552844595 / 9007199254740992)) = Fin 60"
  by (rule rnd_eq [where k = 5 and n = 8444249301319680]) (simp_all add: power_int_minus)

lemma y_far_5: "rnd (5 * (5404319552844595 / 9007199254740992)) = Fin 3"
  by (rule rnd_eq [where k = 1 and n = 6755399441055744]) (simp_all add: power_int_minus)

lemma rnd_m5_2: "rnd (- 5 / 2) = Fin (- (5 / 2))"
  by (rule rnd_eq [where k = 1 and n = "- 5629499534213120"]) (simp_all add: power_int_minus)

lemma rnd_m45_2: "rnd (- 45 / 2) = Fin (- (45 / 2))"
  by (rule rnd_eq [where k = 4 and n = "- 6333186975989760"]) (simp_all add: power_int_minus)

lemma q_5_tenth: "rnd (5 / (3602879701896397 / 36028797018963968)) = Fin 50"
  by (rule rnd_eq [where k = 5 and n = 7036874417766400]) (simp_all add: power_int_minus)

lemma q_3_tenth: "rnd (3 / (3602879701896397 / 36028797018963968)) = Fin 30"
  by (rule rnd_eq [where k = 4 and n = 8444249301319680]) (simp_all add: power_int_minus)

lemma rnd_10_13: "rnd (10 / 13) = Fin (6928614811339225 / 9007199254740992)"
  by (rule rnd_eq [where k = "- 1" and n = 6928614811339225]) (simp_all add: power_int_minus)

lemma sqrt_2421_bounds:
  "13849598602379563 / 281474976710656 < sqrt 2421" "sqrt 2421 < 13849598602379565 / 281474976710656"
  by (rule real_less_rsqrt, simp add: power2_eq_square, rule real_less_lsqrt, simp_all add: power2_eq_square)

lemma rnd_sqrt_2421: "rnd (sqrt 2421) = Fin (3462399650594891 / 70368744177664)"
  by (rule rnd_eq [where k = 5 and n = 6924799301189782]) (use sqrt_2421_bounds in \<open>simp_all add: power_int_minus\<close>)

lemma w_times_s: "rnd (3462399650594891 / 70368744177664 * (6928614811339225 / 9007199254740992)) = Fin (2663384346611455 / 70368744177664)"
  by (rule rnd_eq [where k = 5 and n = 5326768693222910]) (simp_all add: power_int_minus)

lemma ws_over_w: "rnd (2663384346611455 / 70368744177664 / (3462399650594891 / 70368744177664)) = Fin (3464307405669613 / 4503599627370496)"
  by (rule rnd_eq [where k = "- 1" and n = 6928614811339226]) (simp_all add: power_int_minus)

lemma q_100_m: "rnd (100 / (3464307405669613 / 4503599627370496)) = Fin (4573968371548159 / 35184372088832)"
  by (rule rnd_eq [where k = 7 and n = 4573968371548159]) (simp_all add: power_int_minus)

lemma q_60_m: "rnd (60 / (3464307405669613 / 4503599627370496)) = Fin (5488762045857791 / 70368744177664)"
  by (rule rnd_eq [where k = 6 and n = 5488762045857791]) (simp_all add: power_int_minus)

lemma q_97_m34: "rnd (97 / - (3 / 4)) = Fin (- (4550512123488939 / 35184372088832))"
  by (rule rnd_eq [where k = 7 and n = "- 4550512123488939"]) (simp_all add: power_int_minus)

lemma q_57_m34: "rnd (57 / - (3 / 4)) = Fin (- 76)"
  by (rule rnd_eq [where k = 6 and n = "- 5348024557502464"]) (simp_all add: power_int_minus)

lemma rnd_m3_4: "rnd (- (3 / 4)) = Fin (- (3 / 4))"
  by (rule rnd_eq [where k = "- 1" and n = "- 6755399441055744"]) (simp_all add: power_int_minus)

lemma rnd_m15_4: "rnd (- (15 / 4)) = Fin (- (15 / 4))"
  by (rule rnd_eq [where k = 1 and n = "- 8444249301319680"]) (simp_all add: power_int_minus)

subsection \<open>The averaging loops\<close>

text \<open>
  The two loops append, in input order, one entry per non-vertical segment to the lists
  of its side; the lists are therefore images of the candidate lists.
\<close>

lemma add_segment_fields:
  "left_lines (add_segment s a) =
     left_lines a @ map (\<lambda>s. (slope s, intercept s))
       (filter (\<lambda>s. \<not> vertical s \<and> fless (slope s) (Fin 0)) [s])"
  "left_weights (add_segment s a) =
     left_weights a @ map seg_length (filter (\<lambda>s. \<not> vertical s \<and> fless (slope s) (Fin 0)) [s])"
  "right_lines (add_segment s a) =
     right_lines a @ map (\<lambda>s. (slope s, intercept s))
       (filter (\<lambda>s. \<not> vertical s \<and> \<not> fless (slope s) (Fin 0)) [s])"
  "right_weights (add_segment s a) =
     right_weights a @ map seg_length (filter (\<lambda>s. \<not> vertical s \<and> \<not> fless (slope s) (Fin 0)) [s])"
  by (cases s; simp add: float_of_int_0 del: slope.simps intercept.simps seg_length.simps)+

lemma scan_line_fields:
  "left_lines (scan_line ss a) =
     left_lines a @ map (\<lambda>s. (slope s, intercept s))
       (filter (\<lambda>s. \<not> vertical s \<and> fless (slope s) (Fin 0)) ss)"
  "left_weights (scan_line ss a) =
     left_weights a @ map seg_length (filter (\<lambda>s. \<not> vertical s \<and> fless (slope s) (Fin 0)) ss)"
  "right_lines (scan_line ss a) =
     right_lines a @ map (\<lambda>s. (slope s, intercept s))
       (filter (\<lambda>s. \<not> vertical s \<and> \<not> fless (slope s) (Fin 0)) ss)"
  "right_weights (scan_line ss a) =
     right_weights a @ map seg_length (filter (\<lambda>s. \<not> vertical s \<and> \<not> fless (slope s) (Fin 0)) ss)"
  by (induction ss arbitrary: a; simp add: add_segment_fields del: add_segment.simps)+

lemma scan_lines_fields:
  "left_lines (scan_lines ls a) = left_lines a @ map (\<lambda>s. (slope s, intercept s)) (left_candidates ls)"
  "left_weights (scan_lines ls a) = left_weights a @ map seg_length (left_candidates ls)"
  "right_lines (scan_lines ls a) = right_lines a @ map (\<lambda>s. (slope s, intercept s)) (right_candidates ls)"
  "right_weights (scan_lines ls a) = right_weights a @ map seg_length (right_candidates ls)"
  by (induction ls arbitrary: a; simp add: scan_line_fields left_candidates_def right_candidates_def)+

lemma average_slope_intercept_candidates:
  "average_slope_intercept (Some lines) =
     Inr (candidates_lane (left_candidates lines), candidates_lane (right_candidates lines))"
  by (simp add: average_slope_intercept_def scan_lines_fields empty_averager_def candidates_lane_def)

lemma candidates_lane_Nil: "candidates_lane [] = None"
  by (simp add: candidates_lane_def weighted_lane_def)

lemma candidates_lane_single:
  "candidates_lane [s] =
     Some (fdiv (fmul (seg_length s) (slope s)) (seg_length s),
           fdiv (fmul (seg_length s) (intercept s)) (seg_length s))"
  by (simp add: candidates_lane_def weighted_lane_def np_dot_def np_sum_def)

lemma pixel_points_None: "pixel_points y1 y2 None = Inr None"
  by (simp add: pixel_points_def)

subsection \<open>The lane averager\<close>

lemma sqrt_100: "sqrt 100 = 10"
  by (rule real_sqrt_unique) simp_all

lemma seg_0_5_10_5:
  "slope (0, 5, 10, 5) = Fin 0" "intercept (0, 5, 10, 5) = Fin 5" "seg_length (0, 5, 10, 5) = Fin 10"
  by (simp_all add: float_of_int_small int32_def fsub_def rnd_0 rnd_numeral sqrt_100)

lemma sqrt_25: "sqrt 25 = 5"
  by (rule real_sqrt_unique) simp_all

lemma seg_0_3_4_0:
  "slope (0, 3, 4, 0) = Fin (- (3 / 4))" "intercept (0, 3, 4, 0) = Fin 3"
  "seg_length (0, 3, 4, 0) = Fin 5"
  by (simp_all add: float_of_int_small int32_def fsub_def rnd_0 rnd_numeral rnd_m3_4 sqrt_25)


lemma fmul_NaN_left: "fmul NaN y = NaN"
  by simp






text \<open>
  Claim C2. There is an input with a horizontal segment (\<open>x1 \<noteq> x2\<close>, slope exactly
  zero) that is classified as a right candidate and on which the pixel conversion divides
  by a zero slope with no guard: the segment \<open>(0,5)-(10,5)\<close> alone. The right lane model
  is \<open>(0, 5)\<close>, the quotient \<open>(100 - 5) / 0\<close> is an infinity, \<^verbatim>\<open>int\<close> of it raises, and
  \<^verbatim>\<open>__lane_lines\<close> fails on a frame of height 100.
\<close>

theorem horizontal_segment_divides_by_zero:
  "slope (0, 5, 10, 5) = Fin 0
   \<and> right_candidates [[(0, 5, 10, 5)]] = [(0, 5, 10, 5)]
   \<and> average_slope_intercept (Some [[(0, 5, 10, 5)]]) = Inr (None, Some (Fin 0, Fin 5))
   \<and> py_int (fdiv (fsub (float_of_int 100) (Fin 5)) (Fin 0)) = Inl OverflowError
   \<and> pixel_points 100 (Fin 60) (Some (Fin 0, Fin 5)) = Inl OverflowError
   \<and> lane_lines (white [100, 200]) (Some [[(0, 5, 10, 5)]]) = Inl OverflowError"
proof -
  have r: "right_candidates [[(0, 5, 10, 5)]] = [(0, 5, 10, 5)]"
    by (simp add: right_candidates_def seg_0_5_10_5 del: slope.simps)
  have l: "left_candidates [[(0, 5, 10, 5)]] = []"
    by (simp add: left_candidates_def seg_0_5_10_5 del: slope.simps)
  have a: "average_slope_intercept (Some [[(0, 5, 10, 5)]]) = Inr (None, Some (Fin 0, Fin 5))"
    by (simp add: average_slope_intercept_candidates r l candidates_lane_Nil
        candidates_lane_single seg_0_5_10_5 rnd_0 rnd_numeral
        del: slope.simps intercept.simps seg_length.simps)
  have q: "py_int (fdiv (fsub (float_of_int 100) (Fin 5)) (Fin 0)) = Inl OverflowError"
    by (simp add: float_of_int_small fsub_def rnd_numeral)
  have p: "pixel_points 100 y2 (Some (Fin 0, Fin 5)) = Inl OverflowError" for y2
    by (simp add: pixel_points_def q)
  have "lane_lines (white [100, 200]) (Some [[(0, 5, 10, 5)]]) = Inl OverflowError"
    by (simp add: lane_lines_def a white_def p pixel_points_None Let_def)
  with r a q p seg_0_5_10_5(1) show ?thesis by simp
qed

lemma vertical_row_candidates:
  "left_candidates (ls1 @ [(x, y1, x, y2)] # ls2) = left_candidates (ls1 @ ls2)"
  "right_candidates (ls1 @ [(x, y1, x, y2)] # ls2) = right_candidates (ls1 @ ls2)"
  by (simp_all add: left_candidates_def right_candidates_def)

lemma vertical_entry_candidates:
  "left_candidates (ls1 @ (row1 @ (x, y1, x, y2) # row2) # ls2) =
     left_candidates (ls1 @ (row1 @ row2) # ls2)"
  "right_candidates (ls1 @ (row1 @ (x, y1, x, y2) # row2) # ls2) =
     right_candidates (ls1 @ (row1 @ row2) # ls2)"
  by (simp_all add: left_candidates_def right_candidates_def)

text \<open>
  Claim C3. A vertical segment (\<open>x1 = x2\<close>) is a candidate of neither side, and adding it
  to the input, as a row of its own at any position or inside a row, changes neither the
  two lane models nor the two lane segments.
\<close>

theorem vertical_segment_ignored:
  "average_slope_intercept (Some (ls1 @ [(x, y1, x, y2)] # ls2)) =
     average_slope_intercept (Some (ls1 @ ls2))
   \<and> average_slope_intercept (Some (ls1 @ (row1 @ (x, y1, x, y2) # row2) # ls2)) =
       average_slope_intercept (Some (ls1 @ (row1 @ row2) # ls2))
   \<and> lane_lines img (Some (ls1 @ [(x, y1, x, y2)] # ls2)) = lane_lines img (Some (ls1 @ ls2))
   \<and> (x, y1, x, y2) \<notin> set (left_candidates (ls1 @ [(x, y1, x, y2)] # ls2))
   \<and> (x, y1, x, y2) \<notin> set (right_candidates (ls1 @ [(x, y1, x, y2)] # ls2))"
proof -
  have avg: "average_slope_intercept (Some (ls1 @ [(x, y1, x, y2)] # ls2)) =
      average_slope_intercept (Some (ls1 @ ls2))"
    by (simp only: average_slope_intercept_candidates vertical_row_candidates)
  then have "lane_lines img (Some (ls1 @ [(x, y1, x, y2)] # ls2)) = lane_lines img (Some (ls1 @ ls2))"
    by (simp only: lane_lines_def)
  moreover have "average_slope_intercept (Some (ls1 @ (row1 @ (x, y1, x, y2) # row2) # ls2)) =
       average_slope_intercept (Some (ls1 @ (row1 @ row2) # ls2))"
    by (simp only: average_slope_intercept_candidates vertical_entry_candidates)
  moreover have "(x, y1, x, y2) \<notin> set (left_candidates ls)" for ls
    by (simp add: left_candidates_def)
  moreover have "(x, y1, x, y2) \<notin> set (right_candidates ls)" for ls
    by (simp add: right_candidates_def)
  ultimately show ?thesis using avg by blast
qed

text \<open>
  Claim C4. On every collection of raw segments the averager returns normally, and a side
  without candidates has no lane model: that side is \<open>None\<close>, neither a zero nor an error;
  the pixel conversion of such a side returns \<open>None\<close> as well, without an error.
\<close>

theorem absent_side:
  "\<exists>left_lane right_lane.
      average_slope_intercept (Some lines) = Inr (left_lane, right_lane)
      \<and> (left_candidates lines = [] \<longrightarrow>
            left_lane = None \<and> pixel_points y1 y2 left_lane = Inr None)
      \<and> (right_candidates lines = [] \<longrightarrow>
            right_lane = None \<and> pixel_points y1 y2 right_lane = Inr None)"
proof -
  let ?l = "candidates_lane (left_candidates lines)"
  let ?r = "candidates_lane (right_candidates lines)"
  have avg: "average_slope_intercept (Some lines) = Inr (?l, ?r)"
    by (rule average_slope_intercept_candidates)
  have "left_candidates lines = [] \<longrightarrow> ?l = None \<and> pixel_points y1 y2 ?l = Inr None"
    by (simp add: candidates_lane_Nil pixel_points_None)
  moreover
  have "right_candidates lines = [] \<longrightarrow> ?r = None \<and> pixel_points y1 y2 ?r = Inr None"
    by (simp add: candidates_lane_Nil pixel_points_None)
  ultimately show ?thesis using avg by blast
qed

lemma single_left_segment:
  "left_candidates [[(0, 3, 4, 0)]] = [(0, 3, 4, 0)]"
  "right_candidates [[(0, 3, 4, 0)]] = []"
  "average_slope_intercept (Some [[(0, 3, 4, 0)]]) = Inr (Some (Fin (- (3 / 4)), Fin 3), None)"
proof -
  show l: "left_candidates [[(0, 3, 4, 0)]] = [(0, 3, 4, 0)]"
    by (simp add: left_candidates_def seg_0_3_4_0 del: slope.simps)
  show r: "right_candidates [[(0, 3, 4, 0)]] = []"
    by (simp add: right_candidates_def seg_0_3_4_0 del: slope.simps)
  show "average_slope_intercept (Some [[(0, 3, 4, 0)]]) = Inr (Some (Fin (- (3 / 4)), Fin 3), None)"
    by (simp add: average_slope_intercept_candidates l r candidates_lane_Nil candidates_lane_single
        seg_0_3_4_0 rnd_numeral rnd_m3_4 rnd_m15_4
        del: slope.simps intercept.simps seg_length.simps)
qed

theorem absent_side_witness:
  "right_candidates [[(0, 3, 4, 0)]] = []
   \<and> average_slope_intercept (Some [[(0, 3, 4, 0)]]) = Inr (Some (Fin (- (3 / 4)), Fin 3), None)
   \<and> pixel_points 100 (Fin 60) None = Inr None"
proof -
  from absent_side [of "[[(0, 3, 4, 0)]]" 100 "Fin 60"]
  obtain left_lane right_lane
    where "average_slope_intercept (Some [[(0, 3, 4, 0)]]) = Inr (left_lane, right_lane)"
      and "right_candidates [[(0, 3, 4, 0)]] = [] \<longrightarrow>
             right_lane = None \<and> pixel_points 100 (Fin 60) right_lane = Inr None"
    by blast
  with single_left_segment show ?thesis by auto
qed

subsection \<open>Pixel endpoints\<close>

lemma py_trunc_explicit: "py_trunc r = (if r < 0 then - \<lfloor>- r\<rfloor> else \<lfloor>r\<rfloor>)"
  by (simp add: py_trunc_def ceiling_def)

lemma fsub_Fin: "fsub (Fin a) (Fin b) = rnd (a - b)"
  by (simp add: fsub_def)

text \<open>
  Claim C5. For a lane model with a finite slope other than zero and a finite intercept,
  the conversion returns at each of its two heights the double-precision quotient of
  \<open>y - intercept\<close> by the slope, truncated towards zero, whenever that quotient is finite;
  \<^verbatim>\<open>__lane_lines\<close> calls it with the frame height and with the double-precision product
  of the frame height and 0.6; and for the heights 100 and 60, slope \<open>-2\<close> and intercept 300
  the segment is \<open>(100,100)-(120,60)\<close>.
\<close>

theorem pixel_points_endpoints:
  assumes "m \<noteq> 0" and "\<bar>y1\<bar> < 2 ^ 53"
    and "rnd (real_of_int y1 - b) = Fin d1" and "rnd (d1 / m) = Fin q1"
    and "rnd (y2 - b) = Fin d2" and "rnd (d2 / m) = Fin q2"
  shows "pixel_points y1 (Fin y2) (Some (Fin m, Fin b)) =
           Inr (Some (((if q1 < 0 then - \<lfloor>- q1\<rfloor> else \<lfloor>q1\<rfloor>), y1),
                      ((if q2 < 0 then - \<lfloor>- q2\<rfloor> else \<lfloor>q2\<rfloor>),
                       (if y2 < 0 then - \<lfloor>- y2\<rfloor> else \<lfloor>y2\<rfloor>))))
       \<and> (shape img = h # rest \<and> h < 2 ^ 53
            \<and> average_slope_intercept lines = Inr (l, r)
            \<and> pixel_points (int h) (rnd (real h * (5404319552844595 / 9007199254740992))) l = Inr sl
            \<and> pixel_points (int h) (rnd (real h * (5404319552844595 / 9007199254740992))) r = Inr sr
            \<longrightarrow> lane_lines img lines = Inr (sl, sr))
       \<and> pixel_points 100 (Fin 60) (Some (Fin (- 2), Fin 300)) = Inr (Some ((100, 100), (120, 60)))"
proof (intro conjI impI)
  have "fsub (float_of_int y1) (Fin b) = Fin d1"
    using assms(2,3) by (simp add: float_of_int_small fsub_Fin)
  moreover have "fdiv (Fin d1) (Fin m) = Fin q1"
    using assms(1,4) by simp
  moreover have "fsub (Fin y2) (Fin b) = Fin d2"
    using assms(5) by (simp add: fsub_Fin)
  moreover have "fdiv (Fin d2) (Fin m) = Fin q2"
    using assms(1,6) by simp
  ultimately show "pixel_points y1 (Fin y2) (Some (Fin m, Fin b)) =
           Inr (Some (((if q1 < 0 then - \<lfloor>- q1\<rfloor> else \<lfloor>q1\<rfloor>), y1),
                      ((if q2 < 0 then - \<lfloor>- q2\<rfloor> else \<lfloor>q2\<rfloor>),
                       (if y2 < 0 then - \<lfloor>- y2\<rfloor> else \<lfloor>y2\<rfloor>))))"
    by (simp add: pixel_points_def py_trunc_explicit)
next
  assume h: "shape img = h # rest \<and> h < 2 ^ 53
            \<and> average_slope_intercept lines = Inr (l, r)
            \<and> pixel_points (int h) (rnd (real h * (5404319552844595 / 9007199254740992))) l = Inr sl
            \<and> pixel_points (int h) (rnd (real h * (5404319552844595 / 9007199254740992))) r = Inr sr"
  then have "\<bar>int h\<bar> < 2 ^ 53" by simp
  then have "float_of_int (int h) = Fin (real h)"
    by (simp add: float_of_int_small)
  then have "fmul (float_of_int (int h)) (rnd 0.6) =
      rnd (real h * (5404319552844595 / 9007199254740992))"
    by (simp add: rnd_3_5)
  with h show "lane_lines img lines = Inr (sl, sr)"
    by (simp add: lane_lines_def Let_def)
next
  show "pixel_points 100 (Fin 60) (Some (Fin (- 2), Fin 300)) = Inr (Some ((100, 100), (120, 60)))"
    by (simp add: pixel_points_def float_of_int_small fsub_Fin rnd_numeral rnd_neg_numeral
        py_trunc_def)
qed

lemma seg_0_0_39_30:
  "slope (0, 0, 39, 30) = Fin (6928614811339225 / 9007199254740992)"
  "intercept (0, 0, 39, 30) = Fin 0"
  "seg_length (0, 0, 39, 30) = Fin (3462399650594891 / 70368744177664)"
  by (simp_all add: float_of_int_small int32_def fsub_def rnd_0 rnd_numeral rnd_10_13
      rnd_sqrt_2421)

lemma single_right_segment:
  "average_slope_intercept (Some [[(0, 0, 39, 30)]]) =
     Inr (None, Some (Fin (3464307405669613 / 4503599627370496), Fin 0))"
proof -
  have l: "left_candidates [[(0, 0, 39, 30)]] = []"
    by (simp add: left_candidates_def seg_0_0_39_30 del: slope.simps)
  have r: "right_candidates [[(0, 0, 39, 30)]] = [(0, 0, 39, 30)]"
    by (simp add: right_candidates_def seg_0_0_39_30 del: slope.simps)
  have ws: "fmul (Fin (3462399650594891 / 70368744177664))
        (Fin (6928614811339225 / 9007199254740992)) = Fin (2663384346611455 / 70368744177664)"
    using w_times_s by simp
  have m: "fdiv (Fin (2663384346611455 / 70368744177664))
        (Fin (3462399650594891 / 70368744177664)) = Fin (3464307405669613 / 4503599627370496)"
    using ws_over_w by simp
  have b: "fdiv (fmul (Fin (3462399650594891 / 70368744177664)) (Fin 0))
        (Fin (3462399650594891 / 70368744177664)) = Fin 0"
    by (simp add: rnd_0)
  show ?thesis
    by (simp add: average_slope_intercept_candidates l r candidates_lane_Nil
        candidates_lane_single seg_0_0_39_30 ws m b
        del: slope.simps intercept.simps seg_length.simps fmul.simps fdiv.simps)
qed

text \<open>
  The theorem at concrete inputs: a negative quotient with a fraction is truncated
  towards zero (\<open>-2.5\<close> to \<open>-2\<close>); the slope 0.1, which is not a double, gives 50 and 30 at
  the heights 5 and 3; and the frame height 100 with the single segment \<open>(0,0)-(39,30)\<close>
  or \<open>(0,3)-(4,0)\<close> gives the endpoints 129 and 77, or \<open>-129\<close> and \<open>-76\<close>.
\<close>

theorem pixel_points_endpoints_witness:
  "pixel_points 100 (Fin 60) (Some (Fin 2, Fin 105)) = Inr (Some ((- 2, 100), (- 22, 60)))
   \<and> pixel_points 5 (Fin 3) (Some (Fin (3602879701896397 / 36028797018963968), Fin 0)) =
       Inr (Some ((50, 5), (30, 3)))
   \<and> lane_lines (white [100, 200]) (Some [[(0, 0, 39, 30)]]) =
       Inr (None, Some ((129, 100), (77, 60)))
   \<and> lane_lines (white [100, 200]) (Some [[(0, 3, 4, 0)]]) =
       Inr (Some ((- 129, 100), (- 76, 60)), None)"
proof -
  have small: "\<bar>100 :: int\<bar> < 2 ^ 53" "\<bar>5 :: int\<bar> < 2 ^ 53" by simp_all
  have y_far: "rnd (real (100 :: nat) * (5404319552844595 / 9007199254740992)) = Fin 60"
    using y_far_100 by simp
  have shp: "shape (white [100, 200]) = 100 # [200]" by (simp add: white_def)
  \<comment> \<open>a negative quotient with a fraction\<close>
  have "rnd (real_of_int 100 - 105) = Fin (- 5)" "rnd (60 - 105) = Fin (- 45)"
    by (simp_all add: rnd_neg_numeral)
  from pixel_points_endpoints [OF _ small(1) this(1) rnd_m5_2 this(2) rnd_m45_2]
  have w1: "pixel_points 100 (Fin 60) (Some (Fin 2, Fin 105)) = Inr (Some ((- 2, 100), (- 22, 60)))"
    by simp
  \<comment> \<open>a slope that is not a decimal fraction of a power of two\<close>
  have "rnd (real_of_int 5 - 0) = Fin 5" "rnd (3 - 0) = Fin 3"
    by (simp_all add: rnd_numeral)
  from pixel_points_endpoints [OF _ small(2) this(1) q_5_tenth this(2) q_3_tenth]
  have w2: "pixel_points 5 (Fin 3) (Some (Fin (3602879701896397 / 36028797018963968), Fin 0)) =
       Inr (Some ((50, 5), (30, 3)))"
    by simp
  \<comment> \<open>the pipeline on one right-leaning segment\<close>
  have "rnd (real_of_int 100 - 0) = Fin 100" "rnd (60 - 0) = Fin 60"
    by (simp_all add: rnd_numeral)
  note t3 = pixel_points_endpoints [OF _ small(1) this(1) q_100_m this(2) q_60_m,
      where img = "white [100, 200]" and h = 100 and rest = "[200]"
        and lines = "Some [[(0, 0, 39, 30)]]" and l = None
        and r = "Some (Fin (3464307405669613 / 4503599627370496), Fin 0)"
        and sl = None and sr = "Some ((129, 100), (77, 60))"]
  have p3: "pixel_points 100 (Fin 60) (Some (Fin (3464307405669613 / 4503599627370496), Fin 0)) =
      Inr (Some ((129, 100), (77, 60)))"
    using t3 by simp
  have w3: "lane_lines (white [100, 200]) (Some [[(0, 0, 39, 30)]]) =
       Inr (None, Some ((129, 100), (77, 60)))"
    using t3 p3 shp single_right_segment y_far by (simp add: pixel_points_None)
  \<comment> \<open>the pipeline on one left-leaning segment\<close>
  have "rnd (real_of_int 100 - 3) = Fin 97" "rnd (60 - 3) = Fin 57"
    by (simp_all add: rnd_numeral)
  note t4 = pixel_points_endpoints [OF _ small(1) this(1) q_97_m34 this(2) q_57_m34,
      where img = "white [100, 200]" and h = 100 and rest = "[200]"
        and lines = "Some [[(0, 3, 4, 0)]]" and l = "Some (Fin (- (3 / 4)), Fin 3)"
        and r = None and sl = "Some ((- 129, 100), (- 76, 60))" and sr = None]
  have p4: "pixel_points 100 (Fin 60) (Some (Fin (- (3 / 4)), Fin 3)) =
      Inr (Some ((- 129, 100), (- 76, 60)))"
    using t4 by simp
  have w4: "lane_lines (white [100, 200]) (Some [[(0, 3, 4, 0)]]) =
       Inr (Some ((- 129, 100), (- 76, 60)), None)"
    using t4 p4 shp single_left_segment(3) y_far by (simp add: pixel_points_None)
  from w1 w2 w3 w4 show ?thesis by simp
qed

subsection \<open>The line renderer\<close>

text \<open>
  Claim C7 says that the default colour is red. Called with its defaults, the renderer
  starts from an overlay of the frame's shape with every sample zero, draws each present
  segment with the thickness 12 and the colour \<open>[255, 0, 0]\<close>, skips an absent one and
  blends with the weights 1.0, 1.0 and 0.0. In the channel order of the frames that
  colour is blue; red is \<open>[0, 0, 255]\<close>.
\<close>

theorem default_colour_is_blue:
  "draw_lane_lines cv img [Some (p, q), None] None None =
     cv_addWeighted cv img 1 (cv_line cv (zeros_like img) p q (bgr Blue) 12) 1 0
   \<and> draw_lane_lines cv img [Some (p, q), Some (p', q')] None None =
       cv_addWeighted cv img 1
         (cv_line cv (cv_line cv (zeros_like img) p q [255, 0, 0] 12) p' q' [255, 0, 0] 12) 1 0
   \<and> draw_lane_lines cv img [None, None] None None = cv_addWeighted cv img 1 (zeros_like img) 1 0
   \<and> bgr Blue = [255, 0, 0]
   \<and> bgr Red = [0, 0, 255]
   \<and> bgr Blue \<noteq> bgr Red"
proof -
  have "draw_lane_lines cv img ls None None =
      cv_addWeighted cv img 1 (draw_each cv (zeros_like img) ls [255, 0, 0] 12) 1 0" for ls
    by (simp add: draw_lane_lines_def Let_def)
  then show ?thesis by simp
qed

subsection \<open>The capture guard\<close>

text \<open>
  Claim C8. For every device index, \<^verbatim>\<open>prepare_capture\<close> raises
  \<^verbatim>\<open>CameraNotFoundException\<close> exactly when the capture it constructed is not opened, and
  returns that capture otherwise; in both cases it has constructed the capture and asked
  whether it is opened, and it has read no frame.
\<close>

theorem prepare_capture_guard:
  "(snd (prepare_capture Capture isOpened camera_index) = Inl CameraNotFoundException)
     = (\<not> isOpened (Capture camera_index))
   \<and> snd (prepare_capture Capture isOpened camera_index) =
       (if isOpened (Capture camera_index) then Inr (Capture camera_index)
        else Inl CameraNotFoundException)
   \<and> fst (prepare_capture Capture isOpened camera_index) = [CallCapture camera_index, CallIsOpened]
   \<and> CallRead \<notin> set (fst (prepare_capture Capture isOpened camera_index))"
proof (cases "isOpened (Capture camera_index)")
  case True
  then show ?thesis by (simp add: prepare_capture_def Let_def)
next
  case False
  then show ?thesis by (simp add: prepare_capture_def Let_def)
qed

subsection \<open>The pipeline\<close>

text \<open>
  Claim C9. When the line detector reports nothing, that is \<open>None\<close> and not an empty
  collection, the averager fails with the \<^verbatim>\<open>TypeError\<close> of iterating over \<open>None\<close> instead
  of returning two absent lane models (which it does on an empty collection); so do
  \<^verbatim>\<open>__lane_lines\<close> and, once the region selector has returned, \<^verbatim>\<open>frame_processor\<close>.
\<close>

theorem no_detection_not_total:
  "average_slope_intercept None = Inl TypeError
   \<and> average_slope_intercept None \<noteq> Inr (None, None)
   \<and> average_slope_intercept (Some []) = Inr (None, None)
   \<and> lane_lines img None = Inl TypeError
   \<and> (region_selection cv
         (cv_Canny cv (cv_GaussianBlur cv (cv_cvtColor cv img COLOR_BGR2GRAY) (5, 5) 0) 50 150)
        = Inr region
       \<and> hough_transform cv region = None
       \<longrightarrow> frame_processor cv img = Inl TypeError)"
proof (intro conjI impI)
  show a: "average_slope_intercept None = Inl TypeError"
    by (simp add: average_slope_intercept_def)
  then show "average_slope_intercept None \<noteq> Inr (None, None)" by simp
  show "average_slope_intercept (Some []) = Inr (None, None)"
    by (simp add: average_slope_intercept_def empty_averager_def weighted_lane_def)
  from a show l: "lane_lines img None = Inl TypeError" for img
    by (simp add: lane_lines_def)
  assume "region_selection cv
         (cv_Canny cv (cv_GaussianBlur cv (cv_cvtColor cv img COLOR_BGR2GRAY) (5, 5) 0) 50 150)
        = Inr region \<and> hough_transform cv region = None"
  then show "frame_processor cv img = Inl TypeError"
    by (simp add: frame_processor_def l)
qed

lemma demo_cv2_simps:
  "cv_cvtColor demo_cv2 img code = img"
  "cv_GaussianBlur demo_cv2 img ksize sigma = img"
  "cv_Canny demo_cv2 img lo hi = img"
  "cv_HoughLinesP demo_cv2 img rho theta threshold min_len max_gap = None"
  by (simp_all add: demo_cv2_def)

theorem no_detection_not_total_witness:
  "hough_transform demo_cv2
     (bitwise_and (white [10, 15])
        (fillPoly demo_cv2 (zeros_like (white [10, 15])) (vertices 10 15) [255])) = None
   \<and> lane_lines (white [10, 15]) None = Inl TypeError
   \<and> frame_processor demo_cv2 (white [10, 15]) = Inl TypeError"
proof -
  let ?region = "bitwise_and (white [10, 15])
        (fillPoly demo_cv2 (zeros_like (white [10, 15])) (vertices 10 15) [255])"
  have r: "region_selection demo_cv2 (white [10, 15]) = Inr ?region"
    by (simp add: region_selection_def white_def ignore_mask_color_def)
  have h: "hough_transform demo_cv2 ?region = None"
    by (simp add: hough_transform_def demo_cv2_simps)
  from no_detection_not_total [of "white [10, 15]" demo_cv2 ?region] r h
  show ?thesis by (simp add: demo_cv2_simps)
qed

text \<open>
  Claim C10. The public method \<^verbatim>\<open>recognite\<close> returns the frame it is given, for every
  frame; it takes no vision library and so runs no step of \<^verbatim>\<open>frame_processor\<close>.
\<close>

theorem recognite_identity:
  "recognite frame = frame"
  by (simp add: recognite_def)

end
